theory Spec2Isabelle
  imports Main
begin

section \<open>Values supplied by the host application\<close>

text \<open>
  The extension runs inside JupyterLab. The objects it is handed (command registry,
  application shell, layout restorer, state database, main menu) are opaque here: each is
  an identity, and what the extension does with one is a call recorded in a log.
\<close>

datatype command_registry = CommandRegistry nat
datatype application_shell = ApplicationShell nat
datatype layout_restorer = LayoutRestorer nat
datatype state_db = StateDB nat
datatype main_menu = MainMenu nat
datatype launcher = Launcher nat
datatype element = Element nat

text \<open>\<open>DocumentRegistry\<close>: the extension only calls \<open>preferredWidgetFactories(path)\<close>
  and reads the \<open>name\<close> of each factory returned.\<close>

record widget_factory =
  wf_name :: string

record document_registry =
  preferredWidgetFactories :: "string \<Rightarrow> widget_factory list"

text \<open>\<open>IDocumentManager\<close>: the extension reads its \<open>registry\<close>.\<close>

record doc_manager =
  dm_ident :: nat
  dm_registry :: document_registry

text \<open>\<open>JupyterLab\<close>: the extension reads \<open>app.commands\<close> and \<open>app.shell\<close>
  (\<open>app.restored\<close> is the promise \<open>App_restored\<close> below).\<close>

record JupyterLab =
  app_commands :: command_registry
  app_shell :: application_shell

section \<open>The command IDs used by the file browser plugin\<close>

definition CommandIDs_copy :: string where
  "CommandIDs_copy = ''filebrowser:copy''"

definition CommandIDs_cut :: string where
  "CommandIDs_cut = ''filebrowser:cut''"

definition CommandIDs_del :: string where
  "CommandIDs_del = ''filebrowser:delete''"

definition CommandIDs_download :: string where
  "CommandIDs_download = ''filebrowser:download''"

definition CommandIDs_duplicate :: string where
  "CommandIDs_duplicate = ''filebrowser:duplicate''"

definition CommandIDs_hideBrowser :: string where
  "CommandIDs_hideBrowser = ''filebrowser:hide-main''"

definition CommandIDs_open :: string where
  "CommandIDs_open = ''filebrowser:open''"

definition CommandIDs_paste :: string where
  "CommandIDs_paste = ''filebrowser:paste''"

definition CommandIDs_rename :: string where
  "CommandIDs_rename = ''filebrowser:rename''"

definition CommandIDs_showBrowser :: string where
  "CommandIDs_showBrowser = ''filebrowser:activate-main''"

definition CommandIDs_shutdown :: string where
  "CommandIDs_shutdown = ''filebrowser:shutdown''"

definition CommandIDs_toggleBrowser :: string where
  "CommandIDs_toggleBrowser = ''filebrowser:toggle-main''"

definition CommandIDs_createLauncher :: string where
  "CommandIDs_createLauncher = ''filebrowser:create-main-launcher''"

section \<open>Menus\<close>

text \<open>
  A \<open>Menu\<close> is a value this code builds and hands back: the registry it was constructed
  with, the label written to \<open>menu.title.label\<close> (empty until written), and the items
  passed to \<open>menu.addItem\<close>, in call order. An argument object such as
  \<open>{ factory, path }\<close> is the list of its fields.
\<close>

type_synonym args = "(string \<times> string) list"

datatype menu =
  Menu (menu_commands: command_registry) (title_label: string) (menu_items: "menu_item list")
and menu_item =
    Command_item (item_command: string) (item_args: "args option")
  | is_Separator_item: Separator_item
  | is_Submenu_item: Submenu_item (item_submenu: menu)

definition new_Menu :: "command_registry \<Rightarrow> menu" where
  "new_Menu commands = Menu commands [] []"

definition set_title_label :: "menu \<Rightarrow> string \<Rightarrow> menu" where
  "set_title_label m l = Menu (menu_commands m) l (menu_items m)"

definition addItem :: "menu \<Rightarrow> menu_item \<Rightarrow> menu" where
  "addItem m it = Menu (menu_commands m) (title_label m) (menu_items m @ [it])"

text \<open>Create a top level menu for the file browser.\<close>

definition createMenu :: "JupyterLab \<Rightarrow> menu" where
  "createMenu app =
     (let commands = app_commands app;
          menu = new_Menu commands;
          menu = set_title_label menu ''File'';
          menu = foldl (\<lambda>m command. addItem m (Command_item command None)) menu
            [CommandIDs_createLauncher,
             ''docmanager:save'',
             ''docmanager:save-as'',
             ''docmanager:rename'',
             ''docmanager:restore-checkpoint'',
             ''docmanager:clone'',
             ''docmanager:close'',
             ''docmanager:close-all-files''];
          menu = addItem menu Separator_item;
          menu = addItem menu (Command_item ''settingeditor:open'' None)
      in menu)"

text \<open>Create a context menu for the file browser listing. In the source the test is
  \<open>path && factories.length > 1\<close>: a string is truthy when it is not empty.\<close>

definition createContextMenu :: "string \<Rightarrow> command_registry \<Rightarrow> document_registry \<Rightarrow> menu" where
  "createContextMenu path commands registry =
     (let menu = new_Menu commands;
          menu = addItem menu (Command_item CommandIDs_open None);
          factories = map wf_name (preferredWidgetFactories registry path);
          menu =
            (if path \<noteq> [] \<and> length factories > 1 then
               (let command = ''docmanager:open'';
                    openWith = new_Menu commands;
                    openWith = set_title_label openWith ''Open With...'';
                    openWith = foldl (\<lambda>m factory.
                        addItem m (Command_item command
                          (Some [(''factory'', factory), (''path'', path)])))
                      openWith factories
                in addItem menu (Submenu_item openWith))
             else menu);
          menu = addItem menu (Command_item CommandIDs_rename None);
          menu = addItem menu (Command_item CommandIDs_del None);
          menu = addItem menu (Command_item CommandIDs_duplicate None);
          menu = addItem menu (Command_item CommandIDs_cut None);
          menu = addItem menu (Command_item CommandIDs_copy None);
          menu = addItem menu (Command_item CommandIDs_paste None);
          menu = addItem menu (Command_item CommandIDs_download None);
          menu = addItem menu (Command_item CommandIDs_shutdown None)
      in menu)"

section \<open>File browser values\<close>

text \<open>An optional field that may also be \<open>null\<close>: absent, \<open>null\<close>, or a value.\<close>

datatype 'a nullable = Undefined | Null | Defined 'a

text \<open>\<open>IFileBrowserFactory.IOptions\<close>: every field is optional; \<open>state\<close> may be
  \<open>null\<close>. The default argument \<open>{ }\<close> has every field absent.\<close>

record IOptions =
  opt_commands :: "command_registry option"
  opt_driveName :: "string option"
  opt_state :: "state_db nullable"

definition empty_options :: IOptions where
  "empty_options = \<lparr> opt_commands = None, opt_driveName = None, opt_state = Undefined \<rparr>"

text \<open>\<open>a || b\<close> for an optional string \<open>a\<close>: \<open>undefined\<close> and the empty string are
  falsy.\<close>

definition string_or :: "string option \<Rightarrow> string \<Rightarrow> string" where
  "string_or a b = (case a of None \<Rightarrow> b | Some s \<Rightarrow> if s = [] then b else s)"

text \<open>\<open>a || b\<close> for an optional object \<open>a\<close>: every object is truthy.\<close>

definition object_or :: "'a option \<Rightarrow> 'a \<Rightarrow> 'a" where
  "object_or a b = (case a of None \<Rightarrow> b | Some x \<Rightarrow> x)"

text \<open>The options handed to \<open>new FileBrowserModel\<close>; \<open>fbm_state = None\<close> is
  \<open>state: null\<close>.\<close>

record file_browser_model =
  fbm_manager :: doc_manager
  fbm_driveName :: string
  fbm_state :: "state_db option"

text \<open>The options handed to \<open>new FileBrowser\<close>. The widget exposes them as
  \<open>widget.id\<close> and \<open>widget.model\<close>.\<close>

record file_browser =
  fb_id :: string
  fb_model :: file_browser_model
  fb_commands :: command_registry

text \<open>\<open>new InstanceTracker<FileBrowser>({ namespace })\<close>.\<close>

record instance_tracker =
  it_namespace :: string

text \<open>An item of \<open>widget.selectedItems()\<close>: the code reads \<open>type\<close> and \<open>path\<close>.\<close>

record contents_model =
  cm_type :: string
  cm_path :: string

record mouse_event =
  clientX :: int
  clientY :: int

text \<open>The layout that \<open>app.restored\<close> resolves to.\<close>

record layout =
  fresh :: bool

section \<open>Closures\<close>

text \<open>
  A function value handed to the host is the code it runs together with the variables it
  captured. The body of each one is a definition further down, named after the
  constructor.
\<close>

datatype callback =
    OnClick_createLauncher command_registry file_browser
  | Listener_contextmenu file_browser command_registry document_registry
  | Then_showIfFresh command_registry
  | Then_restored JupyterLab file_browser
  | Slot_maybeCreate JupyterLab file_browser
  | Then_createLauncher command_registry file_browser
  | Then_launcherCreated file_browser_model
  | Slot_setCwd launcher file_browser_model

text \<open>The thirteen \<open>execute\<close> functions of \<open>addCommands\<close>. Each closes over the
  arguments of \<open>addCommands\<close>: \<open>app\<close>, \<open>tracker\<close> and \<open>browser\<close>.\<close>

datatype execute_body =
    Body_del | Body_copy | Body_cut | Body_download | Body_duplicate | Body_hideBrowser
  | Body_open | Body_paste | Body_rename | Body_showBrowser | Body_shutdown
  | Body_toggleBrowser | Body_createLauncher

record execute_closure =
  body :: execute_body
  env_app :: JupyterLab
  env_tracker :: instance_tracker
  env_browser :: file_browser

record command_options =
  execute :: execute_closure
  iconClass :: "string option"
  label :: "string option"
  mnemonic :: "int option"

record toolbar_button =
  className :: string
  onClick :: callback

section \<open>Calls into the host\<close>

datatype promise =
    App_restored
  | Model_restored file_browser_model
  | Promise_all "promise list"
  | Execute_promise command_registry string "args option"

datatype signal =
    Shell_layoutModified application_shell
  | Model_pathChanged file_browser_model

datatype widget_method =
    M_delete | M_copy | M_cut | M_download | M_duplicate | M_paste | M_rename
  | M_shutdownKernels

text \<open>
  Every constructor call, method call and property write the extension performs on a
  host object, with its arguments. \<open>Execute_promise r c a\<close> is the promise that
  \<open>Commands_execute r c a\<close> returned. A function of the extension returns the list of its
  calls, in program order.
\<close>

datatype host_call =
    New_InstanceTracker instance_tracker
  | New_FileBrowserModel file_browser_model
  | New_FileBrowser file_browser
  | New_ToolbarButton toolbar_button
  | AddClass toolbar_button string
  | Toolbar_insertItem file_browser nat string toolbar_button
  | AddEventListener element string callback
  | Tracker_add instance_tracker file_browser
  | Restorer_add layout_restorer file_browser string
  | Widget_set_title_label file_browser string
  | Shell_addToLeftArea application_shell file_browser int
  | Shell_collapseLeft application_shell
  | Shell_activateById application_shell string
  | Promise_then promise callback
  | Signal_connect signal callback "launcher option"
  | Commands_addCommand command_registry string command_options
  | Commands_execute command_registry string "args option"
  | Widget_method file_browser widget_method
  | Model_cd file_browser_model string
  | Event_preventDefault mouse_event
  | Menu_open menu int int
  | MainMenu_addMenu main_menu menu int
  | Set_launcher_cwd launcher string

text \<open>What a function of the extension returns: nothing, or the value a host call
  returned.\<close>

datatype js_result = Undefined_result | Result_of host_call

text \<open>What can be thrown: the \<open>TypeError\<close> of a method call on \<open>undefined\<close>, or an
  exception raised inside the host, with its message.\<close>

datatype js_error = TypeError | Thrown string

text \<open>
  What the extension reads from the host while it runs: property reads and query
  methods, whose answers are the host's. \<open>FileBrowserModel_throws\<close> is what the host's
  \<open>FileBrowserModel\<close> constructor throws for the options it is given, if anything (it
  rejects a drive name it does not know).
\<close>

record host =
  currentWidget :: "instance_tracker \<Rightarrow> file_browser option"
  isHidden :: "file_browser \<Rightarrow> bool"
  selectedItems :: "file_browser \<Rightarrow> contents_model list"
  model_path :: "file_browser_model \<Rightarrow> string"
  isEmpty :: "application_shell \<Rightarrow> string \<Rightarrow> bool"
  pathForClick :: "file_browser \<Rightarrow> mouse_event \<Rightarrow> string option"
  getElementsByClassName :: "file_browser \<Rightarrow> string \<Rightarrow> element list"
  FileBrowserModel_throws :: "file_browser_model \<Rightarrow> js_error option"

section \<open>The file browser factory provider\<close>

text \<open>The file browser namespace token.\<close>

definition namespace :: string where
  "namespace = ''filebrowser''"

text \<open>Create a launcher for a given filebrowser widget: \<open>commands.execute\<close> of
  \<open>launcher:create\<close> with the model's current path, then a continuation on the promise
  returned. The chained promise is the result.\<close>

definition createLauncher :: "host \<Rightarrow> command_registry \<Rightarrow> file_browser \<Rightarrow> js_result \<times> host_call list" where
  "createLauncher h commands browser =
     (let model = fb_model browser;
          a = Some [(''cwd'', model_path h model)];
          chained = Promise_then (Execute_promise commands ''launcher:create'' a)
                      (Then_launcherCreated model)
      in (Result_of chained, [Commands_execute commands ''launcher:create'' a, chained]))"

text \<open>The continuation of \<open>createLauncher\<close>: connect a slot to \<open>model.pathChanged\<close>,
  with the launcher as its receiver, and pass the launcher on.\<close>

definition then_launcherCreated :: "file_browser_model \<Rightarrow> launcher \<Rightarrow> launcher \<times> host_call list" where
  "then_launcherCreated model launcher' =
     (launcher', [Signal_connect (Model_pathChanged model) (Slot_setCwd launcher' model)
                    (Some launcher')])"

definition slot_setCwd :: "host \<Rightarrow> launcher \<Rightarrow> file_browser_model \<Rightarrow> host_call list" where
  "slot_setCwd h launcher' model = [Set_launcher_cwd launcher' (model_path h model)]"

text \<open>The launcher button's \<open>onClick\<close>.\<close>

definition onClick_createLauncher :: "host \<Rightarrow> command_registry \<Rightarrow> file_browser \<Rightarrow> js_result \<times> host_call list" where
  "onClick_createLauncher h commands widget = createLauncher h commands widget"

text \<open>The \<open>contextmenu\<close> listener of the directory listing.\<close>

definition listener_contextmenu ::
  "host \<Rightarrow> file_browser \<Rightarrow> command_registry \<Rightarrow> document_registry \<Rightarrow> mouse_event \<Rightarrow> host_call list" where
  "listener_contextmenu h widget commands registry event =
     (let path = string_or (pathForClick h widget event) [];
          menu = createContextMenu path commands registry
      in [Event_preventDefault event, Menu_open menu (clientX event) (clientY event)])"

text \<open>
  \<open>createFileBrowser\<close>, the closure of \<open>activateFactory\<close>, with the variables it
  captures (\<open>commands\<close>, \<open>docManager\<close>, \<open>state\<close>, \<open>tracker\<close>) as leading arguments. An
  omitted \<open>options\<close> argument is \<open>None\<close>. Nothing here catches an exception. When
  \<open>new FileBrowserModel\<close> throws, the function ends there, after that one call.
  Indexing the element collection at \<open>[0]\<close> gives \<open>undefined\<close> when it is empty, and the
  method call on it then throws a \<open>TypeError\<close>: the calls made so far stay made, the
  widget is neither tracked nor returned.
\<close>

definition createFileBrowser ::
  "host \<Rightarrow> command_registry \<Rightarrow> doc_manager \<Rightarrow> state_db \<Rightarrow> instance_tracker \<Rightarrow>
   string \<Rightarrow> IOptions option \<Rightarrow> (js_error + file_browser) \<times> host_call list" where
  "createFileBrowser h commands docManager state tracker id' options_arg =
     (let options = (case options_arg of None \<Rightarrow> empty_options | Some opts \<Rightarrow> opts);
          model = \<lparr> fbm_manager = docManager,
                    fbm_driveName = string_or (opt_driveName options) [],
                    fbm_state = (case opt_state options of
                                   Null \<Rightarrow> None
                                 | Undefined \<Rightarrow> Some state
                                 | Defined s \<Rightarrow> Some s) \<rparr>
      in case FileBrowserModel_throws h model of
           Some e \<Rightarrow> (Inl e, [New_FileBrowserModel model])
         | None \<Rightarrow>
             (let widget = \<lparr> fb_id = id', fb_model = model,
                             fb_commands = object_or (opt_commands options) commands \<rparr>;
                  registry = dm_registry docManager;
                  launcher' = \<lparr> className = ''jp-AddIcon'',
                                onClick = OnClick_createLauncher commands widget \<rparr>;
                  calls = [New_FileBrowserModel model,
                           New_FileBrowser widget,
                           New_ToolbarButton launcher',
                           AddClass launcher' ''jp-MaterialIcon'',
                           Toolbar_insertItem widget 0 ''launch'' launcher']
              in case getElementsByClassName h widget ''jp-DirListing-content'' of
                   [] \<Rightarrow> (Inl TypeError, calls)
                 | node # _ \<Rightarrow>
                     (Inr widget,
                      calls @
                      [AddEventListener node ''contextmenu''
                         (Listener_contextmenu widget commands registry),
                       Tracker_add tracker widget])))"

text \<open>The factory object: the closure \<open>createFileBrowser\<close>, the default browser and the
  tracker.\<close>

record file_browser_factory =
  factory_createFileBrowser ::
    "host \<Rightarrow> string \<Rightarrow> IOptions option \<Rightarrow> (js_error + file_browser) \<times> host_call list"
  factory_defaultBrowser :: file_browser
  factory_tracker :: instance_tracker

text \<open>Activate the file browser factory provider.\<close>

definition activateFactory ::
  "host \<Rightarrow> JupyterLab \<Rightarrow> doc_manager \<Rightarrow> state_db \<Rightarrow>
   (js_error + file_browser_factory) \<times> host_call list" where
  "activateFactory h app docManager state =
     (let commands = app_commands app;
          tracker = \<lparr> it_namespace = namespace \<rparr>;
          create = (\<lambda>h' id' options.
                      createFileBrowser h' commands docManager state tracker id' options);
          (r, calls) = create h ''filebrowser'' None
      in case r of
           Inl e \<Rightarrow> (Inl e, New_InstanceTracker tracker # calls)
         | Inr defaultBrowser \<Rightarrow>
             (Inr \<lparr> factory_createFileBrowser = create,
                    factory_defaultBrowser = defaultBrowser,
                    factory_tracker = tracker \<rparr>,
              New_InstanceTracker tracker # calls))"

section \<open>The file browser commands\<close>

text \<open>Running a command's \<open>execute\<close>. The nine tracker-backed commands start with
  \<open>const widget = tracker.currentWidget; if (!widget) { return; }\<close>.\<close>

definition on_currentWidget ::
  "host \<Rightarrow> instance_tracker \<Rightarrow> (file_browser \<Rightarrow> js_result \<times> host_call list) \<Rightarrow>
   js_result \<times> host_call list" where
  "on_currentWidget h tracker k =
     (case currentWidget h tracker of
        None \<Rightarrow> (Undefined_result, [])
      | Some widget \<Rightarrow> k widget)"

definition return_call :: "host_call \<Rightarrow> js_result \<times> host_call list" where
  "return_call c = (Result_of c, [c])"

fun run_body ::
  "host \<Rightarrow> JupyterLab \<Rightarrow> instance_tracker \<Rightarrow> file_browser \<Rightarrow> execute_body \<Rightarrow>
   js_result \<times> host_call list" where
  "run_body h app tracker browser Body_del =
     on_currentWidget h tracker (\<lambda>widget. return_call (Widget_method widget M_delete))"
| "run_body h app tracker browser Body_copy =
     on_currentWidget h tracker (\<lambda>widget. return_call (Widget_method widget M_copy))"
| "run_body h app tracker browser Body_cut =
     on_currentWidget h tracker (\<lambda>widget. return_call (Widget_method widget M_cut))"
| "run_body h app tracker browser Body_download =
     on_currentWidget h tracker (\<lambda>widget. return_call (Widget_method widget M_download))"
| "run_body h app tracker browser Body_duplicate =
     on_currentWidget h tracker (\<lambda>widget. return_call (Widget_method widget M_duplicate))"
| "run_body h app tracker browser Body_hideBrowser =
     (Undefined_result,
      if \<not> isHidden h browser then [Shell_collapseLeft (app_shell app)] else [])"
| "run_body h app tracker browser Body_open =
     on_currentWidget h tracker (\<lambda>widget.
       (Undefined_result,
        map (\<lambda>item.
               if cm_type item = ''directory''
               then Model_cd (fb_model widget) (cm_path item)
               else Commands_execute (app_commands app) ''docmanager:open''
                      (Some [(''path'', cm_path item)]))
          (selectedItems h widget)))"
| "run_body h app tracker browser Body_paste =
     on_currentWidget h tracker (\<lambda>widget. return_call (Widget_method widget M_paste))"
| "run_body h app tracker browser Body_rename =
     on_currentWidget h tracker (\<lambda>widget. return_call (Widget_method widget M_rename))"
| "run_body h app tracker browser Body_showBrowser =
     (Undefined_result, [Shell_activateById (app_shell app) (fb_id browser)])"
| "run_body h app tracker browser Body_shutdown =
     on_currentWidget h tracker (\<lambda>widget.
       return_call (Widget_method widget M_shutdownKernels))"
| "run_body h app tracker browser Body_toggleBrowser =
     (if isHidden h browser
      then return_call (Commands_execute (app_commands app) CommandIDs_showBrowser None)
      else return_call (Commands_execute (app_commands app) CommandIDs_hideBrowser None))"
| "run_body h app tracker browser Body_createLauncher =
     createLauncher h (app_commands app) browser"

definition run_execute :: "host \<Rightarrow> execute_closure \<Rightarrow> js_result \<times> host_call list" where
  "run_execute h c = run_body h (env_app c) (env_tracker c) (env_browser c) (body c)"

text \<open>Add the main file browser commands to the application's command registry: the
  thirteen \<open>commands.addCommand\<close> calls, in source order.\<close>

definition addCommands :: "JupyterLab \<Rightarrow> instance_tracker \<Rightarrow> file_browser \<Rightarrow> host_call list" where
  "addCommands app tracker browser =
     (let commands = app_commands app;
          closure = (\<lambda>b. \<lparr> body = b, env_app = app, env_tracker = tracker,
                            env_browser = browser \<rparr>)
      in [Commands_addCommand commands CommandIDs_del
            \<lparr> execute = closure Body_del,
              iconClass = Some ''jp-MaterialIcon jp-CloseIcon'',
              label = Some ''Delete'', mnemonic = Some 0 \<rparr>,
          Commands_addCommand commands CommandIDs_copy
            \<lparr> execute = closure Body_copy,
              iconClass = Some ''jp-MaterialIcon jp-CopyIcon'',
              label = Some ''Copy'', mnemonic = Some 0 \<rparr>,
          Commands_addCommand commands CommandIDs_cut
            \<lparr> execute = closure Body_cut,
              iconClass = Some ''jp-MaterialIcon jp-CutIcon'',
              label = Some ''Cut'', mnemonic = None \<rparr>,
          Commands_addCommand commands CommandIDs_download
            \<lparr> execute = closure Body_download,
              iconClass = Some ''jp-MaterialIcon jp-DownloadIcon'',
              label = Some ''Download'', mnemonic = None \<rparr>,
          Commands_addCommand commands CommandIDs_duplicate
            \<lparr> execute = closure Body_duplicate,
              iconClass = Some ''jp-MaterialIcon jp-CopyIcon'',
              label = Some ''Duplicate'', mnemonic = None \<rparr>,
          Commands_addCommand commands CommandIDs_hideBrowser
            \<lparr> execute = closure Body_hideBrowser,
              iconClass = None, label = None, mnemonic = None \<rparr>,
          Commands_addCommand commands CommandIDs_open
            \<lparr> execute = closure Body_open,
              iconClass = Some ''jp-MaterialIcon jp-OpenFolderIcon'',
              label = Some ''Open'', mnemonic = Some 0 \<rparr>,
          Commands_addCommand commands CommandIDs_paste
            \<lparr> execute = closure Body_paste,
              iconClass = Some ''jp-MaterialIcon jp-PasteIcon'',
              label = Some ''Paste'', mnemonic = Some 0 \<rparr>,
          Commands_addCommand commands CommandIDs_rename
            \<lparr> execute = closure Body_rename,
              iconClass = Some ''jp-MaterialIcon jp-EditIcon'',
              label = Some ''Rename'', mnemonic = Some 0 \<rparr>,
          Commands_addCommand commands CommandIDs_showBrowser
            \<lparr> execute = closure Body_showBrowser,
              iconClass = None, label = None, mnemonic = None \<rparr>,
          Commands_addCommand commands CommandIDs_shutdown
            \<lparr> execute = closure Body_shutdown,
              iconClass = Some ''jp-MaterialIcon jp-StopIcon'',
              label = Some ''Shutdown Kernel'', mnemonic = None \<rparr>,
          Commands_addCommand commands CommandIDs_toggleBrowser
            \<lparr> execute = closure Body_toggleBrowser,
              iconClass = None, label = None, mnemonic = None \<rparr>,
          Commands_addCommand commands CommandIDs_createLauncher
            \<lparr> execute = closure Body_createLauncher,
              iconClass = None, label = Some ''New...'', mnemonic = None \<rparr>])"

section \<open>The default file browser in the sidebar\<close>

text \<open>The continuation on \<open>app.restored\<close>: if the layout is a fresh session without
  saved data, open the file browser.\<close>

definition then_showIfFresh :: "command_registry \<Rightarrow> layout \<Rightarrow> host_call list" where
  "then_showIfFresh commands layout' =
     (if fresh layout' then [Commands_execute commands CommandIDs_showBrowser None] else [])"

text \<open>\<open>maybeCreate\<close>: create a launcher if there are no open items.\<close>

definition maybeCreate :: "host \<Rightarrow> JupyterLab \<Rightarrow> file_browser \<Rightarrow> host_call list" where
  "maybeCreate h app browser =
     (let model = fb_model browser in
      if isEmpty h (app_shell app) ''main''
      then [Promise_then (Model_restored model)
              (Then_createLauncher (app_commands app) browser)]
      else [])"

definition then_createLauncher :: "host \<Rightarrow> command_registry \<Rightarrow> file_browser \<Rightarrow> js_result \<times> host_call list" where
  "then_createLauncher h commands browser = createLauncher h commands browser"

definition slot_maybeCreate :: "host \<Rightarrow> JupyterLab \<Rightarrow> file_browser \<Rightarrow> host_call list" where
  "slot_maybeCreate h app browser = maybeCreate h app browser"

text \<open>The continuation on \<open>Promise.all([app.restored, browser.model.restored])\<close>.\<close>

definition then_restored :: "host \<Rightarrow> JupyterLab \<Rightarrow> file_browser \<Rightarrow> host_call list" where
  "then_restored h app browser =
     Signal_connect (Shell_layoutModified (app_shell app)) (Slot_maybeCreate app browser) None
     # maybeCreate h app browser"

text \<open>Activate the default file browser in the sidebar.\<close>

definition activateBrowser :: "JupyterLab \<Rightarrow> file_browser_factory \<Rightarrow> layout_restorer \<Rightarrow> host_call list" where
  "activateBrowser app factory restorer =
     (let browser = factory_defaultBrowser factory;
          commands = app_commands app;
          shell = app_shell app
      in [Restorer_add restorer browser namespace]
         @ addCommands app (factory_tracker factory) browser
         @ [Widget_set_title_label browser ''Files'',
            Shell_addToLeftArea shell browser 100,
            Promise_then App_restored (Then_showIfFresh commands),
            Promise_then (Promise_all [App_restored, Model_restored (fb_model browser)])
              (Then_restored app browser)])"

text \<open>Activate the default file browser menu in the main menu.\<close>

definition activateMenu :: "JupyterLab \<Rightarrow> main_menu \<Rightarrow> host_call list" where
  "activateMenu app mainMenu =
     (let menu = createMenu app in [MainMenu_addMenu mainMenu menu 1])"

section \<open>Tokens, plugins and what each file exports\<close>

text \<open>A \<open>Token\<close> of \<open>@phosphor/coreutils\<close> is constructed from its name.\<close>

datatype token = Token (token_name: string)

text \<open>The console tracker token.\<close>

definition IConsoleTracker :: token where
  "IConsoleTracker = Token ''@jupyterlab/console:IConsoleTracker''"

text \<open>The tokens the file browser extension imports from other packages.\<close>

datatype imported_token =
  IFileBrowserFactory | ILayoutRestorer | IDocumentManager | IStateDB | IMainMenu

datatype activate_function = Fn_activateBrowser | Fn_activateFactory | Fn_activateMenu

text \<open>A \<open>JupyterLabPlugin\<close> object literal; a field the literal leaves out is
  \<open>None\<close>.\<close>

record JupyterLabPlugin =
  activate :: activate_function
  plugin_id :: string
  provides :: "imported_token option"
  requires :: "imported_token list"
  autoStart :: "bool option"

text \<open>The default file browser extension.\<close>

definition plugin_browser :: JupyterLabPlugin where
  "plugin_browser =
     \<lparr> activate = Fn_activateBrowser,
       plugin_id = ''@jupyterlab/filebrowser-extension:browser'',
       provides = None,
       requires = [IFileBrowserFactory, ILayoutRestorer],
       autoStart = Some True \<rparr>"

text \<open>The default file browser factory provider.\<close>

definition plugin_factory :: JupyterLabPlugin where
  "plugin_factory =
     \<lparr> activate = Fn_activateFactory,
       plugin_id = ''@jupyterlab/filebrowser-extension:factory'',
       provides = Some IFileBrowserFactory,
       requires = [IDocumentManager, IStateDB],
       autoStart = None \<rparr>"

text \<open>The default file browser menu extension.\<close>

definition plugin_menu :: JupyterLabPlugin where
  "plugin_menu =
     \<lparr> activate = Fn_activateMenu,
       plugin_id = ''@jupyterlab/filebrowser-extension:menu'',
       provides = None,
       requires = [IMainMenu],
       autoStart = Some True \<rparr>"

text \<open>Export the plugins as default.\<close>

definition plugins :: "JupyterLabPlugin list" where
  "plugins = [plugin_factory, plugin_browser, plugin_menu]"

text \<open>The exports of a source file: a constant bound to a new token, an interface
  (its name and the interface it extends), or a default export of plugins.\<close>

datatype export =
    Export_const string token
  | Export_interface string string
  | Export_default "JupyterLabPlugin list"

text \<open>\<open>packages/console/src/tracker.ts\<close>.\<close>

definition tracker_ts :: "export list" where
  "tracker_ts =
     [Export_const ''IConsoleTracker'' IConsoleTracker,
      Export_interface ''IConsoleTracker'' ''IInstanceTracker<ConsolePanel>'']"

text \<open>The file browser extension.\<close>

definition filebrowser_extension :: "export list" where
  "filebrowser_extension = [Export_default plugins]"

definition repository :: "export list list" where
  "repository = [tracker_ts, filebrowser_extension]"

fun export_plugins :: "export \<Rightarrow> JupyterLabPlugin list" where
  "export_plugins (Export_default ps) = ps"
| "export_plugins (Export_const n t) = []"
| "export_plugins (Export_interface n b) = []"

definition file_plugins :: "export list \<Rightarrow> JupyterLabPlugin list" where
  "file_plugins f = concat (map export_plugins f)"

section \<open>Observing a list of calls\<close>

text \<open>The commands registered by a list of calls: the id and the options of each
  \<open>commands.addCommand\<close>, in call order, and the options registered under an id.\<close>

definition registered :: "host_call list \<Rightarrow> (string \<times> command_options) list" where
  "registered calls = [(c, opts). Commands_addCommand r c opts \<leftarrow> calls]"

definition lookup_command :: "host_call list \<Rightarrow> string \<Rightarrow> command_options option" where
  "lookup_command calls c = map_of (registered calls) c"



section \<open>The services a value mentions\<close>

text \<open>
  The four services the host supplies, and for every value the extension builds or
  passes to the host, the services that occur in it (captured variables of closures and
  arguments of calls included).
\<close>

datatype service =
    Svc_commands command_registry
  | Svc_restorer layout_restorer
  | Svc_manager doc_manager
  | Svc_state state_db

definition services_model :: "file_browser_model \<Rightarrow> service list" where
  "services_model m =
     Svc_manager (fbm_manager m) # (case fbm_state m of None \<Rightarrow> [] | Some s \<Rightarrow> [Svc_state s])"

definition services_browser :: "file_browser \<Rightarrow> service list" where
  "services_browser w = Svc_commands (fb_commands w) # services_model (fb_model w)"

definition services_options :: "IOptions option \<Rightarrow> service list" where
  "services_options options_arg =
     (case options_arg of
        None \<Rightarrow> []
      | Some options \<Rightarrow>
          (case opt_commands options of None \<Rightarrow> [] | Some c \<Rightarrow> [Svc_commands c]) @
          (case opt_state options of Defined s \<Rightarrow> [Svc_state s] | _ \<Rightarrow> []))"

fun services_callback :: "callback \<Rightarrow> service list" where
  "services_callback (OnClick_createLauncher c w) = Svc_commands c # services_browser w"
| "services_callback (Listener_contextmenu w c r) = Svc_commands c # services_browser w"
| "services_callback (Then_showIfFresh c) = [Svc_commands c]"
| "services_callback (Then_restored app b) = Svc_commands (app_commands app) # services_browser b"
| "services_callback (Slot_maybeCreate app b) =
     Svc_commands (app_commands app) # services_browser b"
| "services_callback (Then_createLauncher c b) = Svc_commands c # services_browser b"
| "services_callback (Then_launcherCreated m) = services_model m"
| "services_callback (Slot_setCwd l m) = services_model m"

fun services_menu :: "menu \<Rightarrow> service list"
  and services_item :: "menu_item \<Rightarrow> service list" where
  "services_menu (Menu c l its) = Svc_commands c # concat (map services_item its)"
| "services_item (Command_item c a) = []"
| "services_item Separator_item = []"
| "services_item (Submenu_item m) = services_menu m"

definition services_closure :: "execute_closure \<Rightarrow> service list" where
  "services_closure c = Svc_commands (app_commands (env_app c)) # services_browser (env_browser c)"

fun services_promise :: "promise \<Rightarrow> service list" where
  "services_promise App_restored = []"
| "services_promise (Model_restored m) = services_model m"
| "services_promise (Promise_all ps) = concat (map services_promise ps)"
| "services_promise (Execute_promise c n a) = [Svc_commands c]"

fun services_signal :: "signal \<Rightarrow> service list" where
  "services_signal (Shell_layoutModified s) = []"
| "services_signal (Model_pathChanged m) = services_model m"

fun services_call :: "host_call \<Rightarrow> service list" where
  "services_call (New_InstanceTracker t) = []"
| "services_call (New_FileBrowserModel m) = services_model m"
| "services_call (New_FileBrowser w) = services_browser w"
| "services_call (New_ToolbarButton b) = services_callback (onClick b)"
| "services_call (AddClass b c) = services_callback (onClick b)"
| "services_call (Toolbar_insertItem w i n b) =
     services_browser w @ services_callback (onClick b)"
| "services_call (AddEventListener e n f) = services_callback f"
| "services_call (Tracker_add t w) = services_browser w"
| "services_call (Restorer_add r w n) = Svc_restorer r # services_browser w"
| "services_call (Widget_set_title_label w l) = services_browser w"
| "services_call (Shell_addToLeftArea s w r) = services_browser w"
| "services_call (Shell_collapseLeft s) = []"
| "services_call (Shell_activateById s i) = []"
| "services_call (Promise_then p f) = services_promise p @ services_callback f"
| "services_call (Signal_connect s f t) = services_signal s @ services_callback f"
| "services_call (Commands_addCommand r c opts) =
     Svc_commands r # services_closure (execute opts)"
| "services_call (Commands_execute r c a) = [Svc_commands r]"
| "services_call (Widget_method w m) = services_browser w"
| "services_call (Model_cd m p) = services_model m"
| "services_call (Event_preventDefault e) = []"
| "services_call (Menu_open m x y) = services_menu m"
| "services_call (MainMenu_addMenu mm m r) = services_menu m"
| "services_call (Set_launcher_cwd l p) = []"

definition services_calls :: "host_call list \<Rightarrow> service set" where
  "services_calls calls = set (concat (map services_call calls))"

section \<open>Example values\<close>

definition example_registry :: document_registry where
  "example_registry =
     \<lparr> preferredWidgetFactories =
         (\<lambda>path. if path = ''a.txt''
                  then [\<lparr> wf_name = ''Editor'' \<rparr>, \<lparr> wf_name = ''Viewer'' \<rparr>]
                  else [\<lparr> wf_name = ''Editor'' \<rparr>]) \<rparr>"

definition example_docManager :: doc_manager where
  "example_docManager = \<lparr> dm_ident = 0, dm_registry = example_registry \<rparr>"

definition example_app :: JupyterLab where
  "example_app = \<lparr> app_commands = CommandRegistry 0, app_shell = ApplicationShell 0 \<rparr>"

definition example_tracker :: instance_tracker where
  "example_tracker = \<lparr> it_namespace = ''filebrowser'' \<rparr>"

definition example_browser :: file_browser where
  "example_browser =
     \<lparr> fb_id = ''filebrowser'',
       fb_model = \<lparr> fbm_manager = example_docManager, fbm_driveName = [],
                    fbm_state = Some (StateDB 0) \<rparr>,
       fb_commands = CommandRegistry 0 \<rparr>"

text \<open>A host with no current widget, one whose current widget is the example browser
  with a directory and a file selected, and one that knows the default drive only.\<close>

definition example_host :: host where
  "example_host =
     \<lparr> currentWidget = (\<lambda>t. None),
       isHidden = (\<lambda>w. False),
       selectedItems = (\<lambda>w. []),
       model_path = (\<lambda>m. ''home''),
       isEmpty = (\<lambda>s a. True),
       pathForClick = (\<lambda>w e. None),
       getElementsByClassName = (\<lambda>w c. [Element 0]),
       FileBrowserModel_throws = (\<lambda>m. None) \<rparr>"

definition example_host_current :: host where
  "example_host_current =
     example_host
       \<lparr> currentWidget := (\<lambda>t. Some example_browser),
         selectedItems := (\<lambda>w. [\<lparr> cm_type = ''directory'', cm_path = ''src'' \<rparr>,
                                  \<lparr> cm_type = ''file'', cm_path = ''a.txt'' \<rparr>]) \<rparr>"

definition example_host_one_drive :: host where
  "example_host_one_drive =
     example_host
       \<lparr> FileBrowserModel_throws :=
           (\<lambda>m. if fbm_driveName m = [] then None else Some (Thrown ''unknown drive'')) \<rparr>"

section \<open>Menu lemmas\<close>

lemmas CommandIDs_defs =
  CommandIDs_copy_def CommandIDs_cut_def CommandIDs_del_def CommandIDs_download_def
  CommandIDs_duplicate_def CommandIDs_hideBrowser_def CommandIDs_open_def
  CommandIDs_paste_def CommandIDs_rename_def CommandIDs_showBrowser_def
  CommandIDs_shutdown_def CommandIDs_toggleBrowser_def CommandIDs_createLauncher_def

lemma foldl_addItem:
  "foldl (\<lambda>m x. addItem m (f x)) m xs =
     Menu (menu_commands m) (title_label m) (menu_items m @ map f xs)"
  by (induction xs arbitrary: m) (simp_all add: addItem_def)

lemma createMenu_value:
  "createMenu app =
     Menu (app_commands app) ''File''
       [Command_item ''filebrowser:create-main-launcher'' None,
        Command_item ''docmanager:save'' None,
        Command_item ''docmanager:save-as'' None,
        Command_item ''docmanager:rename'' None,
        Command_item ''docmanager:restore-checkpoint'' None,
        Command_item ''docmanager:clone'' None,
        Command_item ''docmanager:close'' None,
        Command_item ''docmanager:close-all-files'' None,
        Separator_item,
        Command_item ''settingeditor:open'' None]"
  by (simp add: createMenu_def new_Menu_def set_title_label_def addItem_def
      CommandIDs_createLauncher_def)

lemma createContextMenu_value:
  "createContextMenu path commands registry =
     Menu commands []
      (Command_item ''filebrowser:open'' None #
       (if path \<noteq> [] \<and> 1 < length (preferredWidgetFactories registry path)
        then [Submenu_item (Menu commands ''Open With...''
                (map (\<lambda>f. Command_item ''docmanager:open''
                        (Some [(''factory'', wf_name f), (''path'', path)]))
                   (preferredWidgetFactories registry path)))]
        else []) @
       [Command_item ''filebrowser:rename'' None,
        Command_item ''filebrowser:delete'' None,
        Command_item ''filebrowser:duplicate'' None,
        Command_item ''filebrowser:cut'' None,
        Command_item ''filebrowser:copy'' None,
        Command_item ''filebrowser:paste'' None,
        Command_item ''filebrowser:download'' None,
        Command_item ''filebrowser:shutdown'' None])"
  unfolding createContextMenu_def Let_def foldl_addItem
  by (simp add: new_Menu_def set_title_label_def addItem_def CommandIDs_defs comp_def)

text \<open>
  C5. \<open>createMenu\<close> always returns a menu titled \<open>File\<close>, bound to the application's
  command registry, whose items are the eight commands listed, one separator and
  \<open>settingeditor:open\<close>, in that order.
\<close>

theorem createMenu_fixed:
  "title_label (createMenu app) = ''File''
   \<and> menu_commands (createMenu app) = app_commands app
   \<and> menu_items (createMenu app) =
       [Command_item ''filebrowser:create-main-launcher'' None,
        Command_item ''docmanager:save'' None,
        Command_item ''docmanager:save-as'' None,
        Command_item ''docmanager:rename'' None,
        Command_item ''docmanager:restore-checkpoint'' None,
        Command_item ''docmanager:clone'' None,
        Command_item ''docmanager:close'' None,
        Command_item ''docmanager:close-all-files'' None,
        Separator_item,
        Command_item ''settingeditor:open'' None]"
  unfolding createMenu_value by simp

text \<open>
  C9. The context menu holds the \<open>Open With...\<close> submenu exactly when the path is not
  empty and the registry reports more than one preferred widget factory for it; the
  submenu then has one \<open>docmanager:open\<close> item per factory name, in registry order. The
  remaining items are always \<open>filebrowser:open\<close> first, then rename, delete, duplicate,
  cut, copy, paste, download and shutdown.
\<close>

theorem createContextMenu_items:
  "menu_items (createContextMenu path commands registry) =
     Command_item ''filebrowser:open'' None #
     (if path \<noteq> [] \<and> 1 < length (preferredWidgetFactories registry path)
      then [Submenu_item (Menu commands ''Open With...''
              (map (\<lambda>f. Command_item ''docmanager:open''
                      (Some [(''factory'', wf_name f), (''path'', path)]))
                 (preferredWidgetFactories registry path)))]
      else []) @
     [Command_item ''filebrowser:rename'' None,
      Command_item ''filebrowser:delete'' None,
      Command_item ''filebrowser:duplicate'' None,
      Command_item ''filebrowser:cut'' None,
      Command_item ''filebrowser:copy'' None,
      Command_item ''filebrowser:paste'' None,
      Command_item ''filebrowser:download'' None,
      Command_item ''filebrowser:shutdown'' None]
   \<and> ((\<exists>m. Submenu_item m \<in> set (menu_items (createContextMenu path commands registry)))
        = (path \<noteq> [] \<and> 1 < length (preferredWidgetFactories registry path)))
   \<and> filter (\<lambda>i. \<not> is_Submenu_item i) (menu_items (createContextMenu path commands registry)) =
     [Command_item ''filebrowser:open'' None,
      Command_item ''filebrowser:rename'' None,
      Command_item ''filebrowser:delete'' None,
      Command_item ''filebrowser:duplicate'' None,
      Command_item ''filebrowser:cut'' None,
      Command_item ''filebrowser:copy'' None,
      Command_item ''filebrowser:paste'' None,
      Command_item ''filebrowser:download'' None,
      Command_item ''filebrowser:shutdown'' None]"
  unfolding createContextMenu_value by simp

theorem createContextMenu_items_witness:
  "menu_items (createContextMenu ''a.txt'' (CommandRegistry 0) example_registry) =
     [Command_item ''filebrowser:open'' None,
      Submenu_item (Menu (CommandRegistry 0) ''Open With...''
        [Command_item ''docmanager:open'' (Some [(''factory'', ''Editor''), (''path'', ''a.txt'')]),
         Command_item ''docmanager:open'' (Some [(''factory'', ''Viewer''), (''path'', ''a.txt'')])]),
      Command_item ''filebrowser:rename'' None,
      Command_item ''filebrowser:delete'' None,
      Command_item ''filebrowser:duplicate'' None,
      Command_item ''filebrowser:cut'' None,
      Command_item ''filebrowser:copy'' None,
      Command_item ''filebrowser:paste'' None,
      Command_item ''filebrowser:download'' None,
      Command_item ''filebrowser:shutdown'' None]
   \<and> length (menu_items (createContextMenu ''b.txt'' (CommandRegistry 0) example_registry)) = 9
   \<and> length (menu_items (createContextMenu [] (CommandRegistry 0) example_registry)) = 9"
  using createContextMenu_items[of "''a.txt''" "CommandRegistry 0" example_registry]
    createContextMenu_items[of "''b.txt''" "CommandRegistry 0" example_registry]
    createContextMenu_items[of "[]" "CommandRegistry 0" example_registry]
  by (simp add: example_registry_def)

section \<open>The factory\<close>

text \<open>The two ways \<open>createFileBrowser\<close> throws. When the host's model constructor
  rejects the options, nothing but that constructor call has happened. Without a
  \<open>jp-DirListing-content\<close> element in the new widget the call throws after the toolbar
  button was inserted, and the widget is not tracked.\<close>

lemma createFileBrowser_constructor_throws:
  assumes "FileBrowserModel_throws h
             \<lparr> fbm_manager = docManager, fbm_driveName = [], fbm_state = Some state \<rparr> = Some e"
  shows "createFileBrowser h commands docManager state tracker id' None =
           (Inl e, [New_FileBrowserModel
              \<lparr> fbm_manager = docManager, fbm_driveName = [], fbm_state = Some state \<rparr>])"
  using assms
  by (simp add: createFileBrowser_def Let_def empty_options_def string_or_def)

lemma createFileBrowser_TypeError:
  assumes "FileBrowserModel_throws h
             \<lparr> fbm_manager = docManager, fbm_driveName = [], fbm_state = Some state \<rparr> = None"
    and "getElementsByClassName h
             \<lparr> fb_id = id',
               fb_model = \<lparr> fbm_manager = docManager, fbm_driveName = [],
                            fbm_state = Some state \<rparr>,
               fb_commands = commands \<rparr> ''jp-DirListing-content'' = []"
  shows "fst (createFileBrowser h commands docManager state tracker id' None) = Inl TypeError
    \<and> \<not> (\<exists>w. Tracker_add tracker w
               \<in> set (snd (createFileBrowser h commands docManager state tracker id' None)))"
  using assms
  by (auto simp add: createFileBrowser_def Let_def empty_options_def string_or_def object_or_def)








text \<open>
  C10. Option defaulting in \<open>createFileBrowser\<close>. The model's state is \<open>null\<close> exactly
  when \<open>options.state\<close> is \<open>null\<close>; it is \<open>options.state\<close> when that is a value; it is the
  plugin-level state database when \<open>options.state\<close> is absent. The drive name is the one
  supplied, the empty string otherwise. These are the values handed to the model's
  constructor, whether or not it then throws. When it does not, the widget is constructed
  next, on that model, and its registry is the one supplied, the application's otherwise.
  With no options at all every default applies.
\<close>

theorem createFileBrowser_defaults:
  "\<exists>m rest.
     snd (createFileBrowser h commands docManager state tracker id' options_arg) =
       New_FileBrowserModel m # rest
     \<and> (case options_arg of
          None \<Rightarrow> fbm_state m = Some state \<and> fbm_driveName m = []
        | Some options \<Rightarrow>
            ((fbm_state m = None) = (opt_state options = Null))
          \<and> (\<forall>s. opt_state options = Defined s \<longrightarrow> fbm_state m = Some s)
          \<and> (opt_state options = Undefined \<longrightarrow> fbm_state m = Some state)
          \<and> fbm_driveName m = (case opt_driveName options of None \<Rightarrow> [] | Some d \<Rightarrow> d))
     \<and> (FileBrowserModel_throws h m = None \<longrightarrow>
          (\<exists>w rest'. rest = New_FileBrowser w # rest'
             \<and> fb_model w = m
             \<and> (case options_arg of
                  None \<Rightarrow> fb_commands w = commands
                | Some options \<Rightarrow>
                    fb_commands w =
                      (case opt_commands options of None \<Rightarrow> commands | Some c \<Rightarrow> c))))"
  by (auto simp: createFileBrowser_def Let_def empty_options_def string_or_def object_or_def
      split: list.splits option.splits nullable.splits)

theorem createFileBrowser_defaults_witness:
  "(\<exists>m w rest.
      snd (createFileBrowser example_host (CommandRegistry 0) example_docManager (StateDB 0)
             example_tracker ''data''
             (Some \<lparr> opt_commands = Some (CommandRegistry 5), opt_driveName = Some ''Drive'',
                      opt_state = Null \<rparr>)) =
        New_FileBrowserModel m # New_FileBrowser w # rest
      \<and> fbm_state m = None \<and> fbm_driveName m = ''Drive''
      \<and> fb_commands w = CommandRegistry 5)
   \<and> (\<exists>m w rest.
      snd (createFileBrowser example_host (CommandRegistry 0) example_docManager (StateDB 0)
             example_tracker ''data''
             (Some \<lparr> opt_commands = None, opt_driveName = None,
                      opt_state = Defined (StateDB 7) \<rparr>)) =
        New_FileBrowserModel m # New_FileBrowser w # rest
      \<and> fbm_state m = Some (StateDB 7) \<and> fbm_driveName m = []
      \<and> fb_commands w = CommandRegistry 0)
   \<and> (\<exists>m w rest.
      snd (createFileBrowser example_host (CommandRegistry 0) example_docManager (StateDB 0)
             example_tracker ''data''
             (Some \<lparr> opt_commands = None, opt_driveName = None,
                      opt_state = Undefined \<rparr>)) =
        New_FileBrowserModel m # New_FileBrowser w # rest
      \<and> fbm_state m = Some (StateDB 0))
   \<and> (\<exists>m. snd (createFileBrowser example_host_one_drive (CommandRegistry 0)
             example_docManager (StateDB 0) example_tracker ''data''
             (Some \<lparr> opt_commands = None, opt_driveName = Some ''Nope'',
                      opt_state = Null \<rparr>)) = [New_FileBrowserModel m]
      \<and> fbm_state m = None \<and> fbm_driveName m = ''Nope'')"
proof -
  have n: "\<And>m. FileBrowserModel_throws example_host m = None"
    by (simp add: example_host_def)
  have t: "snd (createFileBrowser example_host_one_drive (CommandRegistry 0)
             example_docManager (StateDB 0) example_tracker ''data''
             (Some \<lparr> opt_commands = None, opt_driveName = Some ''Nope'',
                      opt_state = Null \<rparr>)) =
      [New_FileBrowserModel \<lparr> fbm_manager = example_docManager, fbm_driveName = ''Nope'',
         fbm_state = None \<rparr>]"
    by (simp add: createFileBrowser_def Let_def example_host_one_drive_def example_host_def
        string_or_def)
  show ?thesis
    using
      createFileBrowser_defaults[of example_host "CommandRegistry 0" example_docManager
        "StateDB 0" example_tracker "''data''"
        "Some \<lparr> opt_commands = Some (CommandRegistry 5), opt_driveName = Some ''Drive'',
                opt_state = Null \<rparr>"]
      createFileBrowser_defaults[of example_host "CommandRegistry 0" example_docManager
        "StateDB 0" example_tracker "''data''"
        "Some \<lparr> opt_commands = None, opt_driveName = None,
                opt_state = Defined (StateDB 7) \<rparr>"]
      createFileBrowser_defaults[of example_host "CommandRegistry 0" example_docManager
        "StateDB 0" example_tracker "''data''"
        "Some \<lparr> opt_commands = None, opt_driveName = None, opt_state = Undefined \<rparr>"]
      createFileBrowser_defaults[of example_host_one_drive "CommandRegistry 0"
        example_docManager "StateDB 0" example_tracker "''data''"
        "Some \<lparr> opt_commands = None, opt_driveName = Some ''Nope'', opt_state = Null \<rparr>"]
    unfolding t by (simp add: n) blast
qed

section \<open>The registered commands\<close>

lemma ids_list:
  "map fst (registered (addCommands app tracker browser)) =
     [''filebrowser:delete'', ''filebrowser:copy'', ''filebrowser:cut'',
      ''filebrowser:download'', ''filebrowser:duplicate'', ''filebrowser:hide-main'',
      ''filebrowser:open'', ''filebrowser:paste'', ''filebrowser:rename'',
      ''filebrowser:activate-main'', ''filebrowser:shutdown'', ''filebrowser:toggle-main'',
      ''filebrowser:create-main-launcher'']"
  by (simp add: registered_def addCommands_def Let_def CommandIDs_defs)

lemma distinct_ids:
  "distinct (map fst (registered (addCommands app tracker browser)))"
  unfolding ids_list by simp

lemma lookup_iff:
  "(lookup_command (addCommands app tracker browser) c = Some opts) =
   ((c, opts) \<in> set (registered (addCommands app tracker browser)))"
  unfolding lookup_command_def by (rule map_of_eq_Some_iff[OF distinct_ids])

lemma lookup_defined:
  assumes "c \<in> set [''filebrowser:delete'', ''filebrowser:copy'', ''filebrowser:cut'',
      ''filebrowser:download'', ''filebrowser:duplicate'', ''filebrowser:hide-main'',
      ''filebrowser:open'', ''filebrowser:paste'', ''filebrowser:rename'',
      ''filebrowser:activate-main'', ''filebrowser:shutdown'', ''filebrowser:toggle-main'',
      ''filebrowser:create-main-launcher'']"
  shows "\<exists>opts. lookup_command (addCommands app tracker browser) c = Some opts"
proof -
  have "c \<in> fst ` set (registered (addCommands app tracker browser))"
    using assms unfolding ids_list[of app tracker browser, symmetric] by (simp only: set_map)
  then have "map_of (registered (addCommands app tracker browser)) c \<noteq> None"
    by (simp only: map_of_eq_None_iff not_not)
  then show ?thesis unfolding lookup_command_def by blast
qed

lemma table_list:
  "map (\<lambda>(c, opts). (c, body (execute opts))) (registered (addCommands app tracker browser)) =
     [(''filebrowser:delete'', Body_del), (''filebrowser:copy'', Body_copy),
      (''filebrowser:cut'', Body_cut), (''filebrowser:download'', Body_download),
      (''filebrowser:duplicate'', Body_duplicate), (''filebrowser:hide-main'', Body_hideBrowser),
      (''filebrowser:open'', Body_open), (''filebrowser:paste'', Body_paste),
      (''filebrowser:rename'', Body_rename), (''filebrowser:activate-main'', Body_showBrowser),
      (''filebrowser:shutdown'', Body_shutdown), (''filebrowser:toggle-main'', Body_toggleBrowser),
      (''filebrowser:create-main-launcher'', Body_createLauncher)]"
  by (simp add: registered_def addCommands_def Let_def CommandIDs_defs)

lemma env_list:
  "list_all (\<lambda>(c, opts). env_app (execute opts) = app \<and> env_tracker (execute opts) = tracker
      \<and> env_browser (execute opts) = browser) (registered (addCommands app tracker browser))"
  by (simp add: registered_def addCommands_def Let_def)

lemma lookup_run:
  assumes "lookup_command (addCommands app tracker browser) c = Some opts"
  shows "run_execute h (execute opts) = run_body h app tracker browser (body (execute opts))"
    and "(c, body (execute opts)) \<in> set
     [(''filebrowser:delete'', Body_del), (''filebrowser:copy'', Body_copy),
      (''filebrowser:cut'', Body_cut), (''filebrowser:download'', Body_download),
      (''filebrowser:duplicate'', Body_duplicate), (''filebrowser:hide-main'', Body_hideBrowser),
      (''filebrowser:open'', Body_open), (''filebrowser:paste'', Body_paste),
      (''filebrowser:rename'', Body_rename), (''filebrowser:activate-main'', Body_showBrowser),
      (''filebrowser:shutdown'', Body_shutdown), (''filebrowser:toggle-main'', Body_toggleBrowser),
      (''filebrowser:create-main-launcher'', Body_createLauncher)]"
proof -
  let ?r = "registered (addCommands app tracker browser)"
  have m: "(c, opts) \<in> set ?r"
    using assms by (simp only: lookup_iff)
  have "\<forall>x\<in>set ?r. case x of (c, opts) \<Rightarrow> env_app (execute opts) = app \<and>
      env_tracker (execute opts) = tracker \<and> env_browser (execute opts) = browser"
    using env_list[of app tracker browser] by (simp only: list_all_iff)
  from bspec[OF this m]
  show "run_execute h (execute opts) = run_body h app tracker browser (body (execute opts))"
    unfolding run_execute_def by simp
  let ?f = "\<lambda>(c, opts). (c, body (execute opts))"
  have "?f (c, opts) \<in> ?f ` set ?r" using m by (rule imageI)
  then have "?f (c, opts) \<in> set (map ?f ?r)" by (simp only: set_map)
  then show "(c, body (execute opts)) \<in> set
     [(''filebrowser:delete'', Body_del), (''filebrowser:copy'', Body_copy),
      (''filebrowser:cut'', Body_cut), (''filebrowser:download'', Body_download),
      (''filebrowser:duplicate'', Body_duplicate), (''filebrowser:hide-main'', Body_hideBrowser),
      (''filebrowser:open'', Body_open), (''filebrowser:paste'', Body_paste),
      (''filebrowser:rename'', Body_rename), (''filebrowser:activate-main'', Body_showBrowser),
      (''filebrowser:shutdown'', Body_shutdown), (''filebrowser:toggle-main'', Body_toggleBrowser),
      (''filebrowser:create-main-launcher'', Body_createLauncher)]"
    unfolding table_list by (simp only: prod.case)
qed


lemma tracker_backed_body:
  assumes c: "c \<in> {''filebrowser:copy'', ''filebrowser:cut'', ''filebrowser:delete'',
                   ''filebrowser:download'', ''filebrowser:duplicate'', ''filebrowser:open'',
                   ''filebrowser:paste'', ''filebrowser:rename'', ''filebrowser:shutdown''}"
   and t: "(c, b) \<in> set
     [(''filebrowser:delete'', Body_del), (''filebrowser:copy'', Body_copy),
      (''filebrowser:cut'', Body_cut), (''filebrowser:download'', Body_download),
      (''filebrowser:duplicate'', Body_duplicate), (''filebrowser:hide-main'', Body_hideBrowser),
      (''filebrowser:open'', Body_open), (''filebrowser:paste'', Body_paste),
      (''filebrowser:rename'', Body_rename), (''filebrowser:activate-main'', Body_showBrowser),
      (''filebrowser:shutdown'', Body_shutdown), (''filebrowser:toggle-main'', Body_toggleBrowser),
      (''filebrowser:create-main-launcher'', Body_createLauncher)]"
  shows "(c, b) \<in> {(''filebrowser:copy'', Body_copy), (''filebrowser:cut'', Body_cut),
     (''filebrowser:delete'', Body_del), (''filebrowser:download'', Body_download),
     (''filebrowser:duplicate'', Body_duplicate), (''filebrowser:open'', Body_open),
     (''filebrowser:paste'', Body_paste), (''filebrowser:rename'', Body_rename),
     (''filebrowser:shutdown'', Body_shutdown)}"
  using c t by (elim insertE emptyE) simp_all

lemma tracker_backed_guard:
  assumes t: "(c, b) \<in> {(''filebrowser:copy'', Body_copy), (''filebrowser:cut'', Body_cut),
     (''filebrowser:delete'', Body_del), (''filebrowser:download'', Body_download),
     (''filebrowser:duplicate'', Body_duplicate), (''filebrowser:open'', Body_open),
     (''filebrowser:paste'', Body_paste), (''filebrowser:rename'', Body_rename),
     (''filebrowser:shutdown'', Body_shutdown)}"
  shows "(currentWidget h tracker = None \<longrightarrow>
          run_body h app tracker browser b = (Undefined_result, []))
     \<and> (\<forall>w m. Widget_method w m \<in> set (snd (run_body h app tracker browser b)) \<longrightarrow>
          currentWidget h tracker = Some w)
     \<and> (\<forall>mdl p. Model_cd mdl p \<in> set (snd (run_body h app tracker browser b)) \<longrightarrow>
          (\<exists>w. currentWidget h tracker = Some w \<and> mdl = fb_model w))"
  using t
  by (elim insertE emptyE; cases "currentWidget h tracker")
     (auto simp add: on_currentWidget_def return_call_def)

lemma tracker_backed_method:
  assumes t: "(c, b) \<in> {(''filebrowser:copy'', Body_copy), (''filebrowser:cut'', Body_cut),
     (''filebrowser:delete'', Body_del), (''filebrowser:download'', Body_download),
     (''filebrowser:duplicate'', Body_duplicate), (''filebrowser:open'', Body_open),
     (''filebrowser:paste'', Body_paste), (''filebrowser:rename'', Body_rename),
     (''filebrowser:shutdown'', Body_shutdown)}"
   and w: "currentWidget h tracker = Some w" and o: "c \<noteq> ''filebrowser:open''"
  shows "\<exists>m. run_body h app tracker browser b =
                 (Result_of (Widget_method w m), [Widget_method w m])
               \<and> (c, m) \<in> {(''filebrowser:copy'', M_copy), (''filebrowser:cut'', M_cut),
                    (''filebrowser:delete'', M_delete), (''filebrowser:download'', M_download),
                    (''filebrowser:duplicate'', M_duplicate), (''filebrowser:paste'', M_paste),
                    (''filebrowser:rename'', M_rename),
                    (''filebrowser:shutdown'', M_shutdownKernels)}"
  using t o
  by (elim insertE emptyE) (simp_all add: on_currentWidget_def return_call_def w)



text \<open>
  C8. Each of the nine tracker-backed commands is registered, and when the tracker has no
  current widget its \<open>execute\<close> returns \<open>undefined\<close> and makes no call at all. A widget
  method or a \<open>cd\<close> on a widget's model is called only on the tracker's current widget;
  with a current widget, each command other than \<open>open\<close> calls its own widget method
  once and returns that call's result.
\<close>

theorem tracker_commands_guard:
  assumes c: "c \<in> {''filebrowser:copy'', ''filebrowser:cut'', ''filebrowser:delete'',
                   ''filebrowser:download'', ''filebrowser:duplicate'', ''filebrowser:open'',
                   ''filebrowser:paste'', ''filebrowser:rename'', ''filebrowser:shutdown''}"
  shows "\<exists>opts. lookup_command (addCommands app tracker browser) c = Some opts
     \<and> (currentWidget h tracker = None \<longrightarrow>
          run_execute h (execute opts) = (Undefined_result, []))
     \<and> (\<forall>w m. Widget_method w m \<in> set (snd (run_execute h (execute opts))) \<longrightarrow>
          currentWidget h tracker = Some w)
     \<and> (\<forall>mdl p. Model_cd mdl p \<in> set (snd (run_execute h (execute opts))) \<longrightarrow>
          (\<exists>w. currentWidget h tracker = Some w \<and> mdl = fb_model w))
     \<and> (\<forall>w. currentWidget h tracker = Some w \<longrightarrow> c \<noteq> ''filebrowser:open'' \<longrightarrow>
          (\<exists>m. run_execute h (execute opts) =
                 (Result_of (Widget_method w m), [Widget_method w m])
               \<and> (c, m) \<in> {(''filebrowser:copy'', M_copy), (''filebrowser:cut'', M_cut),
                    (''filebrowser:delete'', M_delete), (''filebrowser:download'', M_download),
                    (''filebrowser:duplicate'', M_duplicate), (''filebrowser:paste'', M_paste),
                    (''filebrowser:rename'', M_rename),
                    (''filebrowser:shutdown'', M_shutdownKernels)}))"
proof -
  have "c \<in> set [''filebrowser:delete'', ''filebrowser:copy'', ''filebrowser:cut'',
      ''filebrowser:download'', ''filebrowser:duplicate'', ''filebrowser:hide-main'',
      ''filebrowser:open'', ''filebrowser:paste'', ''filebrowser:rename'',
      ''filebrowser:activate-main'', ''filebrowser:shutdown'', ''filebrowser:toggle-main'',
      ''filebrowser:create-main-launcher'']"
    using c by (elim insertE emptyE) simp_all
  then obtain opts where l: "lookup_command (addCommands app tracker browser) c = Some opts"
    using lookup_defined[of c app tracker browser] by blast
  note r = lookup_run(1)[OF l, of h]
  note t = tracker_backed_body[OF c lookup_run(2)[OF l]]
  note b = tracker_backed_guard[OF t, of h tracker app browser]
  have s: "\<forall>w. currentWidget h tracker = Some w \<longrightarrow> c \<noteq> ''filebrowser:open'' \<longrightarrow>
          (\<exists>m. run_body h app tracker browser (body (execute opts)) =
                 (Result_of (Widget_method w m), [Widget_method w m])
               \<and> (c, m) \<in> {(''filebrowser:copy'', M_copy), (''filebrowser:cut'', M_cut),
                    (''filebrowser:delete'', M_delete), (''filebrowser:download'', M_download),
                    (''filebrowser:duplicate'', M_duplicate), (''filebrowser:paste'', M_paste),
                    (''filebrowser:rename'', M_rename),
                    (''filebrowser:shutdown'', M_shutdownKernels)})"
    using tracker_backed_method[OF t] by blast
  show ?thesis
    apply (rule exI[of _ opts])
    unfolding r
    using l b s by (intro conjI) blast+
qed

theorem tracker_commands_guard_witness:
  "''filebrowser:delete'' \<in> {''filebrowser:copy'', ''filebrowser:cut'', ''filebrowser:delete'',
       ''filebrowser:download'', ''filebrowser:duplicate'', ''filebrowser:open'',
       ''filebrowser:paste'', ''filebrowser:rename'', ''filebrowser:shutdown''}
   \<and> currentWidget example_host example_tracker = None
   \<and> currentWidget example_host_current example_tracker = Some example_browser
   \<and> (\<exists>opts. lookup_command (addCommands example_app example_tracker example_browser)
                 ''filebrowser:delete'' = Some opts
          \<and> run_execute example_host (execute opts) = (Undefined_result, [])
          \<and> run_execute example_host_current (execute opts) =
                (Result_of (Widget_method example_browser M_delete),
                 [Widget_method example_browser M_delete]))"
proof -
  have c: "''filebrowser:delete'' \<in> {''filebrowser:copy'', ''filebrowser:cut'',
       ''filebrowser:delete'', ''filebrowser:download'', ''filebrowser:duplicate'',
       ''filebrowser:open'', ''filebrowser:paste'', ''filebrowser:rename'',
       ''filebrowser:shutdown''}"
    by simp
  have n: "currentWidget example_host example_tracker = None"
    by (simp add: example_host_def)
  have s: "currentWidget example_host_current example_tracker = Some example_browser"
    by (simp add: example_host_current_def example_host_def)
  obtain opts where
    l: "lookup_command (addCommands example_app example_tracker example_browser)
          ''filebrowser:delete'' = Some opts"
    and g: "currentWidget example_host example_tracker = None \<longrightarrow>
          run_execute example_host (execute opts) = (Undefined_result, [])"
    using tracker_commands_guard[OF c, of example_app example_tracker example_browser
        example_host]
    by (elim exE conjE) (rule that; assumption)
  have b: "body (execute opts) = Body_del"
    using lookup_run(2)[OF l] by simp
  have r: "run_execute example_host_current (execute opts) =
          (Result_of (Widget_method example_browser M_delete),
           [Widget_method example_browser M_delete])"
    unfolding lookup_run(1)[OF l] b
    by (simp add: on_currentWidget_def return_call_def s)
  show ?thesis
    apply (intro conjI)
       apply (rule c)
      apply (rule n)
     apply (rule s)
    apply (rule exI[of _ opts])
    apply (intro conjI)
      apply (rule l)
     apply (rule g[rule_format, OF n])
    apply (rule r)
    done
qed





section \<open>Where the services come from\<close>

lemma services_createMenu:
  "set (services_menu (createMenu app)) = {Svc_commands (app_commands app)}"
  unfolding createMenu_value by simp

lemma services_createContextMenu:
  "set (services_menu (createContextMenu path commands registry)) = {Svc_commands commands}"
  unfolding createContextMenu_value by (simp add: comp_def)

lemma services_createFileBrowser:
  "services_calls (snd (createFileBrowser h commands docManager state tracker id' options_arg))
     \<subseteq> {Svc_commands commands, Svc_manager docManager, Svc_state state}
       \<union> set (services_options options_arg)"
  by (auto simp add: services_calls_def createFileBrowser_def Let_def services_browser_def
      services_model_def services_options_def empty_options_def object_or_def
      split: list.splits option.splits nullable.splits)

lemma services_activateFactory:
  "services_calls (snd (activateFactory h app docManager state))
     \<subseteq> {Svc_commands (app_commands app), Svc_manager docManager, Svc_state state}"
proof -
  have "services_calls (snd (activateFactory h app docManager state)) =
        services_calls (snd (createFileBrowser h (app_commands app) docManager state
          \<lparr> it_namespace = namespace \<rparr> ''filebrowser'' None))"
    by (simp add: activateFactory_def Let_def services_calls_def split: prod.splits sum.splits)
  then show ?thesis
    using services_createFileBrowser[of h "app_commands app" docManager state
        "\<lparr> it_namespace = namespace \<rparr>" "''filebrowser''" None]
    by (simp add: services_options_def)
qed

lemma services_addCommands:
  "services_calls (addCommands app tracker browser)
     \<subseteq> {Svc_commands (app_commands app)} \<union> set (services_browser browser)"
  by (simp add: services_calls_def addCommands_def Let_def services_closure_def)

lemma services_activateBrowser:
  "services_calls (activateBrowser app factory restorer)
     \<subseteq> {Svc_commands (app_commands app), Svc_restorer restorer}
       \<union> set (services_browser (factory_defaultBrowser factory))"
  using services_addCommands[of app "factory_tracker factory" "factory_defaultBrowser factory"]
  by (auto simp add: services_calls_def activateBrowser_def Let_def services_browser_def)

lemma services_activateMenu:
  "services_calls (activateMenu app mainMenu) \<subseteq> {Svc_commands (app_commands app)}"
  using services_createMenu[of app]
  by (simp add: services_calls_def activateMenu_def Let_def)

lemma services_createLauncher:
  "services_calls (snd (createLauncher h commands browser))
     \<subseteq> {Svc_commands commands} \<union> set (services_browser browser)"
  by (auto simp add: services_calls_def createLauncher_def Let_def services_browser_def)

lemma services_run_execute:
  "services_calls (snd (run_execute h c))
     \<subseteq> set (services_closure c)
       \<union> (case currentWidget h (env_tracker c) of
            None \<Rightarrow> {} | Some w \<Rightarrow> set (services_browser w))"
  using services_createLauncher[of h "app_commands (env_app c)" "env_browser c"]
  by (cases "body c"; cases "currentWidget h (env_tracker c)")
     (auto simp add: run_execute_def services_calls_def services_closure_def
        on_currentWidget_def return_call_def services_browser_def split: if_splits)

lemma services_callbacks:
  "services_calls (snd (then_launcherCreated model launcher')) \<subseteq> set (services_model model)
   \<and> services_calls (slot_setCwd h launcher' model) = {}
   \<and> services_calls (listener_contextmenu h widget commands registry event)
       \<subseteq> {Svc_commands commands}
   \<and> services_calls (then_showIfFresh commands layout') \<subseteq> {Svc_commands commands}
   \<and> services_calls (then_restored h app browser)
       \<subseteq> {Svc_commands (app_commands app)} \<union> set (services_browser browser)"
  using services_createContextMenu[of "string_or (pathForClick h widget event) []" commands registry]
  by (auto simp add: services_calls_def then_launcherCreated_def slot_setCwd_def
      listener_contextmenu_def then_showIfFresh_def then_restored_def maybeCreate_def Let_def
      services_browser_def)

lemma services_aliases:
  "services_calls (snd (onClick_createLauncher h commands widget))
     \<subseteq> {Svc_commands commands} \<union> set (services_browser widget)
   \<and> services_calls (snd (then_createLauncher h commands browser))
     \<subseteq> {Svc_commands commands} \<union> set (services_browser browser)
   \<and> services_calls (slot_maybeCreate h app browser)
     \<subseteq> {Svc_commands (app_commands app)} \<union> set (services_browser browser)"
  using services_createLauncher[of h commands widget]
    services_createLauncher[of h commands browser]
  by (auto simp add: onClick_createLauncher_def then_createLauncher_def slot_maybeCreate_def
      maybeCreate_def Let_def services_calls_def services_browser_def)

text \<open>
  C6. The command registry, layout restorer, document manager and state database are
  supplied from outside. Every such service that occurs in a call the extension makes, in
  a closure it hands to the host, or in a widget or menu it builds, is one it received: an
  argument of the function (a plugin dependency, the application's registry, a field of
  the options), or part of a widget it was handed (the default browser, the tracker's
  current widget). No function of the extension produces one of its own.
\<close>

theorem services_injected:
  "services_calls (snd (createFileBrowser h commands docManager state tracker id' options_arg))
     \<subseteq> {Svc_commands commands, Svc_manager docManager, Svc_state state}
       \<union> set (services_options options_arg)
   \<and> services_calls (snd (activateFactory h app docManager state))
     \<subseteq> {Svc_commands (app_commands app), Svc_manager docManager, Svc_state state}
   \<and> services_calls (activateBrowser app factory restorer)
     \<subseteq> {Svc_commands (app_commands app), Svc_restorer restorer}
       \<union> set (services_browser (factory_defaultBrowser factory))
   \<and> services_calls (activateMenu app mainMenu) \<subseteq> {Svc_commands (app_commands app)}
   \<and> services_calls (addCommands app tracker browser)
     \<subseteq> {Svc_commands (app_commands app)} \<union> set (services_browser browser)
   \<and> services_calls (snd (run_execute h c))
     \<subseteq> set (services_closure c)
       \<union> (case currentWidget h (env_tracker c) of
            None \<Rightarrow> {} | Some w \<Rightarrow> set (services_browser w))
   \<and> services_calls (snd (createLauncher h commands browser))
     \<subseteq> {Svc_commands commands} \<union> set (services_browser browser)
   \<and> services_calls (snd (then_launcherCreated model launcher')) \<subseteq> set (services_model model)
   \<and> services_calls (slot_setCwd h launcher' model) = {}
   \<and> services_calls (listener_contextmenu h widget commands registry event)
       \<subseteq> {Svc_commands commands}
   \<and> services_calls (then_showIfFresh commands layout') \<subseteq> {Svc_commands commands}
   \<and> services_calls (then_restored h app browser)
       \<subseteq> {Svc_commands (app_commands app)} \<union> set (services_browser browser)
   \<and> set (services_menu (createMenu app)) = {Svc_commands (app_commands app)}
   \<and> set (services_menu (createContextMenu path commands registry)) = {Svc_commands commands}
   \<and> services_calls (snd (onClick_createLauncher h commands widget))
       \<subseteq> {Svc_commands commands} \<union> set (services_browser widget)
   \<and> services_calls (snd (then_createLauncher h commands browser))
       \<subseteq> {Svc_commands commands} \<union> set (services_browser browser)
   \<and> services_calls (slot_maybeCreate h app browser)
       \<subseteq> {Svc_commands (app_commands app)} \<union> set (services_browser browser)"
proof -
  note cb = services_callbacks[of model launcher' h widget commands registry event layout'
      app browser]
  note al = services_aliases[of h commands widget browser app]
  show ?thesis
    apply (intro conjI)
                 apply (rule services_createFileBrowser)
                apply (rule services_activateFactory)
               apply (rule services_activateBrowser)
              apply (rule services_activateMenu)
             apply (rule services_addCommands)
            apply (rule services_run_execute)
           apply (rule services_createLauncher)
          apply (rule cb[THEN conjunct1])
         apply (rule cb[THEN conjunct2, THEN conjunct1])
        apply (rule cb[THEN conjunct2, THEN conjunct2, THEN conjunct1])
       apply (rule cb[THEN conjunct2, THEN conjunct2, THEN conjunct2, THEN conjunct1])
      apply (rule cb[THEN conjunct2, THEN conjunct2, THEN conjunct2, THEN conjunct2])
     apply (rule services_createMenu)
        apply (rule services_createContextMenu)
       apply (rule al[THEN conjunct1])
      apply (rule al[THEN conjunct2, THEN conjunct1])
     apply (rule al[THEN conjunct2, THEN conjunct2])
    done
qed

theorem services_injected_witness:
  "services_calls (activateBrowser example_app
      \<lparr> factory_createFileBrowser =
          (\<lambda>h id' options. createFileBrowser h (CommandRegistry 0) example_docManager
             (StateDB 0) example_tracker id' options),
        factory_defaultBrowser = example_browser,
        factory_tracker = example_tracker \<rparr> (LayoutRestorer 3))
     \<subseteq> {Svc_commands (CommandRegistry 0), Svc_restorer (LayoutRestorer 3),
         Svc_manager example_docManager, Svc_state (StateDB 0)}
   \<and> Svc_restorer (LayoutRestorer 3) \<in> services_calls (activateBrowser example_app
      \<lparr> factory_createFileBrowser =
          (\<lambda>h id' options. createFileBrowser h (CommandRegistry 0) example_docManager
             (StateDB 0) example_tracker id' options),
        factory_defaultBrowser = example_browser,
        factory_tracker = example_tracker \<rparr> (LayoutRestorer 3))
   \<and> services_calls (snd (createFileBrowser example_host (CommandRegistry 0) example_docManager
        (StateDB 0) example_tracker ''data''
        (Some \<lparr> opt_commands = Some (CommandRegistry 5), opt_driveName = None,
                 opt_state = Null \<rparr>)))
     \<subseteq> {Svc_commands (CommandRegistry 0), Svc_manager example_docManager,
         Svc_state (StateDB 0), Svc_commands (CommandRegistry 5)}"
proof -
  let ?f = "\<lparr> factory_createFileBrowser =
          (\<lambda>h id' options. createFileBrowser h (CommandRegistry 0) example_docManager
             (StateDB 0) example_tracker id' options),
        factory_defaultBrowser = example_browser,
        factory_tracker = example_tracker \<rparr>"
  let ?o = "Some \<lparr> opt_commands = Some (CommandRegistry 5), opt_driveName = None,
                   opt_state = Null \<rparr>"
  note t = services_injected[of example_host "CommandRegistry 0" example_docManager "StateDB 0"
      example_tracker "''data''" ?o example_app ?f "LayoutRestorer 3"]
  have sb: "set (services_browser example_browser) =
      {Svc_commands (CommandRegistry 0), Svc_manager example_docManager, Svc_state (StateDB 0)}"
    by (simp add: services_browser_def services_model_def example_browser_def)
  have record_simps: "factory_defaultBrowser ?f = example_browser"
    by simp
  have a: "services_calls (activateBrowser example_app ?f (LayoutRestorer 3))
     \<subseteq> {Svc_commands (CommandRegistry 0), Svc_restorer (LayoutRestorer 3),
         Svc_manager example_docManager, Svc_state (StateDB 0)}"
    using t[THEN conjunct2, THEN conjunct2, THEN conjunct1]
    unfolding record_simps sb by (auto simp add: example_app_def)
  have b: "Svc_restorer (LayoutRestorer 3)
      \<in> services_calls (activateBrowser example_app ?f (LayoutRestorer 3))"
    by (simp add: services_calls_def activateBrowser_def Let_def)
  have c: "services_calls (snd (createFileBrowser example_host (CommandRegistry 0)
        example_docManager (StateDB 0) example_tracker ''data'' ?o))
     \<subseteq> {Svc_commands (CommandRegistry 0), Svc_manager example_docManager,
         Svc_state (StateDB 0), Svc_commands (CommandRegistry 5)}"
    using t[THEN conjunct1] by (simp add: services_options_def insert_commute)
  show ?thesis
    using a b c by (intro conjI)
qed

section \<open>The plugins and the two files\<close>

text \<open>
  C1. The repository has two parts. The console tracker file exports the token
  \<open>IConsoleTracker\<close>, named \<open>@jupyterlab/console:IConsoleTracker\<close>, and its interface. The
  file browser extension's default export is the list of the three plugins factory,
  browser and menu, in that order: factory provides \<open>IFileBrowserFactory\<close>; browser's
  activation labels the default browser \<open>Files\<close> and adds it to the shell's left area;
  menu's activation adds the \<open>File\<close> menu to the main menu.
\<close>

theorem repository_parts:
  "repository = [tracker_ts, filebrowser_extension]
   \<and> tracker_ts = [Export_const ''IConsoleTracker'' IConsoleTracker,
                   Export_interface ''IConsoleTracker'' ''IInstanceTracker<ConsolePanel>'']
   \<and> token_name IConsoleTracker = ''@jupyterlab/console:IConsoleTracker''
   \<and> filebrowser_extension = [Export_default [plugin_factory, plugin_browser, plugin_menu]]
   \<and> length (file_plugins filebrowser_extension) = 3
   \<and> provides plugin_factory = Some IFileBrowserFactory
   \<and> activate plugin_factory = Fn_activateFactory
   \<and> activate plugin_browser = Fn_activateBrowser
   \<and> Shell_addToLeftArea (app_shell app) (factory_defaultBrowser factory) 100
       \<in> set (activateBrowser app factory restorer)
   \<and> Widget_set_title_label (factory_defaultBrowser factory) ''Files''
       \<in> set (activateBrowser app factory restorer)
   \<and> activate plugin_menu = Fn_activateMenu
   \<and> activateMenu app mainMenu = [MainMenu_addMenu mainMenu (createMenu app) 1]
   \<and> title_label (createMenu app) = ''File''"
  by (simp add: repository_def tracker_ts_def IConsoleTracker_def filebrowser_extension_def
      plugins_def file_plugins_def plugin_factory_def plugin_browser_def plugin_menu_def
      activateBrowser_def activateMenu_def Let_def createMenu_value)

text \<open>
  C2. Of the two files only the file browser extension contributes plugin values: three
  plugins, each with an id, an activate function and a non-empty list of required tokens.
  The console tracker file contributes a token for the dependency-injection system and an
  interface, and no plugin.
\<close>

theorem file_plugins_amended:
  "file_plugins tracker_ts = []
   \<and> [t. Export_const n t \<leftarrow> tracker_ts] = [Token ''@jupyterlab/console:IConsoleTracker'']
   \<and> file_plugins filebrowser_extension = [plugin_factory, plugin_browser, plugin_menu]
   \<and> map plugin_id (file_plugins filebrowser_extension) =
       [''@jupyterlab/filebrowser-extension:factory'',
        ''@jupyterlab/filebrowser-extension:browser'',
        ''@jupyterlab/filebrowser-extension:menu'']
   \<and> map activate (file_plugins filebrowser_extension) =
       [Fn_activateFactory, Fn_activateBrowser, Fn_activateMenu]
   \<and> map requires (file_plugins filebrowser_extension) =
       [[IDocumentManager, IStateDB], [IFileBrowserFactory, ILayoutRestorer], [IMainMenu]]"
  by (simp add: file_plugins_def tracker_ts_def filebrowser_extension_def plugins_def
      plugin_factory_def plugin_browser_def plugin_menu_def IConsoleTracker_def)

text \<open>The console tracker file does not contribute at least one plugin.\<close>

theorem tracker_ts_no_plugin:
  "\<not> 1 \<le> length (file_plugins tracker_ts)"
  by (simp add: file_plugins_def tracker_ts_def)

end
